theory Spec2Isabelle
  imports Complex_Main "HOL-Library.Signed_Division"
begin

section \<open>Conventions of the embedding\<close>

text \<open>
  The Go program computes with \<^verbatim>\<open>float64\<close>. Every quantity the repository itself
  computes (battery parameters, state of charge, energies, prices, PnL) is modelled as an
  exact \<^typ>\<open>real\<close>, so the theorems below are statements in exact arithmetic; rounding
  is outside the model. The one float that reaches the core from arbitrary outside code
  is the power a \<^verbatim>\<open>Strategy\<close> returns from \<^verbatim>\<open>Decide\<close>; for it the IEEE special
  values are kept, as the type \<open>float64\<close> below.

  Go's \<^verbatim>\<open>int\<close> is modelled as \<^typ>\<open>int\<close> (or \<^typ>\<open>nat\<close> for a slice position):
  the step counts of the planners size the arrays they allocate, so a count near the
  64-bit limit exhausts memory long before any arithmetic on it wraps.

  Errors are values: a Go \<^verbatim>\<open>error\<close> return and a run-time panic are both an
  \<open>error\<close>, and a fallible function returns \<open>error + 'a\<close>.
\<close>

datatype error =
    ErrEnergyCapacity          \<comment> \<open>EnergyCapacityMWh must be > 0\<close>
  | ErrPowerCapacity           \<comment> \<open>PowerCapacityMW must be > 0\<close>
  | ErrChargeEfficiency        \<comment> \<open>ChargeEfficiency must be in (0, 1]\<close>
  | ErrDischargeEfficiency     \<comment> \<open>DischargeEfficiency must be in (0, 1]\<close>
  | ErrSOCBounds               \<comment> \<open>MinSOC/MaxSOC must satisfy 0<=MinSOC<=MaxSOC<=1\<close>
  | ErrInitialSOC              \<comment> \<open>initial SOC must be within [MinSOC, MaxSOC]\<close>
  | ErrDegradationCost         \<comment> \<open>DegradationCostPerMWh must be >= 0\<close>
  | ErrDurationHours           \<comment> \<open>durationHours must be > 0\<close>
  | ErrBatteryNil              \<comment> \<open>battery is nil\<close>
  | ErrStrategyNil             \<comment> \<open>strategy is nil\<close>
  | ErrNoIntervals             \<comment> \<open>no intervals\<close>
  | ErrApplyDispatch nat error \<comment> \<open>interval %d apply dispatch: %w\<close>
  | ErrNonPositiveDt nat       \<comment> \<open>non-positive dt at t=%d\<close>
  | ErrOptimizingDay int error \<comment> \<open>error optimizing day %s: %w\<close>
  | ErrPlanLength nat nat      \<comment> \<open>plan length (%d) does not match intervals length (%d)\<close>
  | ErrInvalidTime string      \<comment> \<open>invalid time %q, expected HH:MM / invalid time %q\<close>
  | ErrInvalidHour string      \<comment> \<open>invalid hour in %q\<close>
  | ErrInvalidMinute string    \<comment> \<open>invalid minute in %q\<close>
  | PanicIndexOutOfRange       \<comment> \<open>run-time panic: index out of range\<close>
  | Panic error                \<comment> \<open>panic(err)\<close>

section \<open>Battery interval model (internal/model/battery.go)\<close>

record BatteryParams =
  EnergyCapacityMWh :: real
  PowerCapacityMW :: real
  ChargeEfficiency :: real
  DischargeEfficiency :: real
  MinSOC :: real
  MaxSOC :: real
  DegradationCostPerMWh :: real

record BatteryState =
  SOC :: real

record Battery =
  Params :: BatteryParams
  State :: BatteryState

definition Validate :: "Battery \<Rightarrow> error option" where
  "Validate b =
     (let p = Params b in
      if EnergyCapacityMWh p \<le> 0 then Some ErrEnergyCapacity
      else if PowerCapacityMW p \<le> 0 then Some ErrPowerCapacity
      else if ChargeEfficiency p \<le> 0 \<or> ChargeEfficiency p > 1 then Some ErrChargeEfficiency
      else if DischargeEfficiency p \<le> 0 \<or> DischargeEfficiency p > 1
        then Some ErrDischargeEfficiency
      else if MinSOC p < 0 \<or> MinSOC p > 1 \<or> MaxSOC p < 0 \<or> MaxSOC p > 1
              \<or> MinSOC p > MaxSOC p
        then Some ErrSOCBounds
      else if SOC (State b) < MinSOC p \<or> SOC (State b) > MaxSOC p then Some ErrInitialSOC
      else if DegradationCostPerMWh p < 0 then Some ErrDegradationCost
      else None)"

definition NewBattery :: "BatteryParams \<Rightarrow> real \<Rightarrow> error + Battery" where
  "NewBattery params initialSOC =
     (let b = \<lparr>Params = params, State = \<lparr>SOC = initialSOC\<rparr>\<rparr> in
      case Validate b of Some err \<Rightarrow> Inl err | None \<Rightarrow> Inr b)"

text \<open>
  The requested power of a dispatch: a \<^verbatim>\<open>float64\<close> produced by a strategy, with the
  IEEE special values. A comparison with NaN is false.
\<close>

datatype float64 = Fin real | PosInf | NegInf | NaN

fun f64_gt :: "float64 \<Rightarrow> real \<Rightarrow> bool" where
  "f64_gt (Fin x) c = (x > c)"
| "f64_gt PosInf c = True"
| "f64_gt NegInf c = False"
| "f64_gt NaN c = False"

fun f64_lt :: "float64 \<Rightarrow> real \<Rightarrow> bool" where
  "f64_lt (Fin x) c = (x < c)"
| "f64_lt PosInf c = False"
| "f64_lt NegInf c = True"
| "f64_lt NaN c = False"

record Dispatch =
  PowerMW :: float64

record IntervalResult =
  PowerMW :: real
  EnergyToGridMWh :: real
  EnergyFromGridMWh :: real
  ThroughputMWh :: real
  SOCStart :: real
  SOCEnd :: real
  PNL :: real

definition ClipDispatch :: "Battery \<Rightarrow> Dispatch \<Rightarrow> Dispatch" where
  "ClipDispatch b d =
     (let p = Dispatch.PowerMW d;
          p = (if f64_gt p (PowerCapacityMW (Params b))
               then Fin (PowerCapacityMW (Params b)) else p);
          p = (if f64_lt p (- PowerCapacityMW (Params b))
               then Fin (- PowerCapacityMW (Params b)) else p)
      in \<lparr>Dispatch.PowerMW = p\<rparr>)"

definition CalculateIntervalPnL :: "Battery \<Rightarrow> real \<Rightarrow> real \<Rightarrow> real \<Rightarrow> real" where
  "CalculateIntervalPnL b lmp energyFromGridMWh energyToGridMWh =
     (let revenue = lmp * energyToGridMWh;
          cost = lmp * energyFromGridMWh;
          degradation = DegradationCostPerMWh (Params b) * (energyFromGridMWh + energyToGridMWh)
      in revenue - cost - degradation)"

definition maxChargeEnergyFromGridMWh :: "Battery \<Rightarrow> real \<Rightarrow> real" where
  "maxChargeEnergyFromGridMWh b durationHours =
     (let storableMWh = (MaxSOC (Params b) - SOC (State b)) * EnergyCapacityMWh (Params b) in
      if storableMWh \<le> 0 then 0
      else
        let limitBySOC = storableMWh / ChargeEfficiency (Params b);
            limitByPower = PowerCapacityMW (Params b) * durationHours
        in max 0 (min limitBySOC limitByPower))"

definition maxDischargeEnergyToGridMWh :: "Battery \<Rightarrow> real \<Rightarrow> real" where
  "maxDischargeEnergyToGridMWh b durationHours =
     (let withdrawableMWh = (SOC (State b) - MinSOC (Params b)) * EnergyCapacityMWh (Params b) in
      if withdrawableMWh \<le> 0 then 0
      else
        let limitBySOC = withdrawableMWh * DischargeEfficiency (Params b);
            limitByPower = PowerCapacityMW (Params b) * durationHours
        in max 0 (min limitBySOC limitByPower))"

definition clamp01 :: "real \<Rightarrow> real" where
  "clamp01 x = (if x < 0 then 0 else if x > 1 then 1 else x)"

text \<open>
  The three branches of \<^verbatim>\<open>ApplyDispatch\<close> after the request has been limited:
  \<open>chargeBranch\<close> is the body of \<^verbatim>\<open>if p < 0\<close> from \<^verbatim>\<open>storedMWh\<close> on,
  \<open>dischargeBranch\<close> that of \<^verbatim>\<open>else if p > 0\<close> from \<^verbatim>\<open>withdrawnMWh\<close> on, each
  followed by the common tail (\<^verbatim>\<open>res.SOCEnd\<close>, \<^verbatim>\<open>res.PNL\<close>); \<open>idleBranch\<close> is
  the final \<^verbatim>\<open>else\<close>. They return the result and the mutated battery.
\<close>

definition chargeBranch :: "Battery \<Rightarrow> real \<Rightarrow> real \<Rightarrow> real \<Rightarrow> IntervalResult \<times> Battery" where
  "chargeBranch b lmp reqFromGridMWh p =
     (let storedMWh = reqFromGridMWh * ChargeEfficiency (Params b);
          soc' = clamp01 ((SOC (State b) * EnergyCapacityMWh (Params b) + storedMWh)
                          / EnergyCapacityMWh (Params b))
      in (\<lparr>IntervalResult.PowerMW = p,
           EnergyToGridMWh = 0,
           EnergyFromGridMWh = reqFromGridMWh,
           ThroughputMWh = reqFromGridMWh,
           SOCStart = SOC (State b),
           SOCEnd = soc',
           PNL = CalculateIntervalPnL b lmp reqFromGridMWh 0\<rparr>,
          b\<lparr>State := \<lparr>SOC = soc'\<rparr>\<rparr>))"

definition dischargeBranch :: "Battery \<Rightarrow> real \<Rightarrow> real \<Rightarrow> real \<Rightarrow> IntervalResult \<times> Battery" where
  "dischargeBranch b lmp reqToGridMWh p =
     (let withdrawnMWh = reqToGridMWh / DischargeEfficiency (Params b);
          soc' = clamp01 ((SOC (State b) * EnergyCapacityMWh (Params b) - withdrawnMWh)
                          / EnergyCapacityMWh (Params b))
      in (\<lparr>IntervalResult.PowerMW = p,
           EnergyToGridMWh = reqToGridMWh,
           EnergyFromGridMWh = 0,
           ThroughputMWh = reqToGridMWh,
           SOCStart = SOC (State b),
           SOCEnd = soc',
           PNL = CalculateIntervalPnL b lmp 0 reqToGridMWh\<rparr>,
          b\<lparr>State := \<lparr>SOC = soc'\<rparr>\<rparr>))"

definition idleBranch :: "Battery \<Rightarrow> real \<Rightarrow> IntervalResult \<times> Battery" where
  "idleBranch b lmp =
     (\<lparr>IntervalResult.PowerMW = 0,
       EnergyToGridMWh = 0,
       EnergyFromGridMWh = 0,
       ThroughputMWh = 0,
       SOCStart = SOC (State b),
       SOCEnd = SOC (State b),
       PNL = CalculateIntervalPnL b lmp 0 0\<rparr>,
      b)"

text \<open>
  \<^verbatim>\<open>ApplyDispatch\<close>. The method has a pointer receiver and mutates \<^verbatim>\<open>b.State.SOC\<close>;
  the model returns the battery after the call next to the result, also when the call
  fails. The clipped power \<open>p\<close> is a \<open>float64\<close>: for a finite value the branches are
  those of the source; NaN fails both \<^verbatim>\<open>p < 0\<close> and \<^verbatim>\<open>p > 0\<close> and takes the final
  \<^verbatim>\<open>else\<close>; for an infinite value (which \<open>ClipDispatch\<close> never returns) the requested
  energy \<^verbatim>\<open>|p| * durationHours\<close> is infinite and exceeds the limit.
\<close>

definition ApplyDispatch ::
  "Battery \<Rightarrow> real \<Rightarrow> Dispatch \<Rightarrow> real \<Rightarrow> (error + IntervalResult) \<times> Battery" where
  "ApplyDispatch b lmp d durationHours =
     (if durationHours \<le> 0 then (Inl ErrDurationHours, b)
      else
        let maxChargeMWhGrid = maxChargeEnergyFromGridMWh b durationHours;
            maxDischargeMWhGrid = maxDischargeEnergyToGridMWh b durationHours;
            (res, b') =
              (case Dispatch.PowerMW (ClipDispatch b d) of
                 Fin p \<Rightarrow>
                   if p < 0 then
                     let reqFromGridMWh = \<bar>p\<bar> * durationHours in
                     if reqFromGridMWh > maxChargeMWhGrid
                     then chargeBranch b lmp maxChargeMWhGrid (- maxChargeMWhGrid / durationHours)
                     else chargeBranch b lmp reqFromGridMWh p
                   else if p > 0 then
                     let reqToGridMWh = p * durationHours in
                     if reqToGridMWh > maxDischargeMWhGrid
                     then dischargeBranch b lmp maxDischargeMWhGrid
                            (maxDischargeMWhGrid / durationHours)
                     else dischargeBranch b lmp reqToGridMWh p
                   else idleBranch b lmp
               | NegInf \<Rightarrow>
                   chargeBranch b lmp maxChargeMWhGrid (- maxChargeMWhGrid / durationHours)
               | PosInf \<Rightarrow>
                   dischargeBranch b lmp maxDischargeMWhGrid (maxDischargeMWhGrid / durationHours)
               | NaN \<Rightarrow> idleBranch b lmp)
        in (Inr res, b'))"

section \<open>The Oracle planner's pure step (simulateInterval)\<close>

definition simulateInterval ::
  "real \<Rightarrow> real \<Rightarrow> real \<Rightarrow> real \<Rightarrow> BatteryParams \<Rightarrow> real \<times> real \<times> real" where
  "simulateInterval soc desiredPower lmp dtH p =
     (let power = desiredPower;
          power = (if power > PowerCapacityMW p then PowerCapacityMW p else power);
          power = (if power < - PowerCapacityMW p then - PowerCapacityMW p else power);
          (nextSOC, power, energyFromGrid, energyToGrid) =
            (if power < 0 then
               let reqFromGrid = \<bar>power\<bar> * dtH;
                   storableMWh = (MaxSOC p - soc) * EnergyCapacityMWh p;
                   storableMWh = (if storableMWh < 0 then 0 else storableMWh);
                   limitBySOC = storableMWh / ChargeEfficiency p;
                   limitByPower = PowerCapacityMW p * dtH;
                   maxFromGrid = min limitBySOC limitByPower;
                   (reqFromGrid, power) =
                     (if reqFromGrid > maxFromGrid \<and> dtH > 0
                      then (maxFromGrid, - maxFromGrid / dtH) else (reqFromGrid, power));
                   storedMWh = reqFromGrid * ChargeEfficiency p
               in (soc + storedMWh / EnergyCapacityMWh p, power, reqFromGrid, 0)
             else if power > 0 then
               let reqToGrid = power * dtH;
                   withdrawableMWh = (soc - MinSOC p) * EnergyCapacityMWh p;
                   withdrawableMWh = (if withdrawableMWh < 0 then 0 else withdrawableMWh);
                   limitBySOC = withdrawableMWh * DischargeEfficiency p;
                   limitByPower = PowerCapacityMW p * dtH;
                   maxToGrid = min limitBySOC limitByPower;
                   (reqToGrid, power) =
                     (if reqToGrid > maxToGrid \<and> dtH > 0
                      then (maxToGrid, maxToGrid / dtH) else (reqToGrid, power));
                   withdrawnMWh = reqToGrid / DischargeEfficiency p
               in (soc - withdrawnMWh / EnergyCapacityMWh p, power, 0, reqToGrid)
             else (soc, power, 0, 0));
          nextSOC = (if nextSOC < MinSOC p then MinSOC p else nextSOC);
          nextSOC = (if nextSOC > MaxSOC p then MaxSOC p else nextSOC);
          revenue = lmp * energyToGrid;
          cost = lmp * energyFromGrid;
          deg = DegradationCostPerMWh p * (energyFromGrid + energyToGrid);
          pnl = revenue - cost - deg
      in (nextSOC, power, pnl))"


section \<open>Properties of the battery step\<close>

subsection \<open>What validation gives\<close>


lemma maxCharge_nonneg: "0 \<le> maxChargeEnergyFromGridMWh b dt"
  unfolding maxChargeEnergyFromGridMWh_def Let_def by simp

lemma maxDischarge_nonneg: "0 \<le> maxDischargeEnergyToGridMWh b dt"
  unfolding maxDischargeEnergyToGridMWh_def Let_def by simp






subsection \<open>The three outcomes of a step\<close>

text \<open>
  Every successful \<open>ApplyDispatch\<close> ends in one of its three branches: charging with a
  grid energy and a realized power, discharging likewise, or idle. An outcome is within
  the limits (\<open>outcome_ok\<close>) when its energy is between 0 and the branch's maximum and the
  realized power has the branch's sign.
\<close>

datatype outcome = Charged real real | Discharged real real | Idled

fun outcome_result :: "Battery \<Rightarrow> real \<Rightarrow> outcome \<Rightarrow> IntervalResult \<times> Battery" where
  "outcome_result b lmp (Charged req p) = chargeBranch b lmp req p"
| "outcome_result b lmp (Discharged req p) = dischargeBranch b lmp req p"
| "outcome_result b lmp Idled = idleBranch b lmp"

fun outcome_ok :: "Battery \<Rightarrow> real \<Rightarrow> outcome \<Rightarrow> bool" where
  "outcome_ok b dt (Charged req p) = (0 \<le> req \<and> req \<le> maxChargeEnergyFromGridMWh b dt \<and> p \<le> 0)"
| "outcome_ok b dt (Discharged req p) = (0 \<le> req \<and> req \<le> maxDischargeEnergyToGridMWh b dt \<and> 0 \<le> p)"
| "outcome_ok b dt Idled = True"

lemma ApplyDispatch_outcome:
  assumes dt: "0 < dt"
  shows "\<exists>oc. outcome_ok b dt oc \<and>
           ApplyDispatch b lmp d dt = (Inr (fst (outcome_result b lmp oc)), snd (outcome_result b lmp oc))"
proof (cases "Dispatch.PowerMW (ClipDispatch b d)")
  case (Fin p)
  let ?mc = "maxChargeEnergyFromGridMWh b dt" and ?md = "maxDischargeEnergyToGridMWh b dt"
  consider (c1) "p < 0" "\<bar>p\<bar> * dt > ?mc" | (c2) "p < 0" "\<not> \<bar>p\<bar> * dt > ?mc"
    | (d1) "p > 0" "p * dt > ?md" | (d2) "p > 0" "\<not> p * dt > ?md" | (i) "p = 0"
    by linarith
  then show ?thesis
  proof cases
    case c1
    have "outcome_ok b dt (Charged ?mc (- ?mc / dt))"
      using dt maxCharge_nonneg[of b dt] by (simp add: divide_nonneg_pos)
    moreover have "ApplyDispatch b lmp d dt = (Inr (fst (outcome_result b lmp (Charged ?mc (- ?mc / dt)))),
                      snd (outcome_result b lmp (Charged ?mc (- ?mc / dt))))"
      using dt Fin c1 by (simp add: ApplyDispatch_def Let_def split: prod.splits)
    ultimately show ?thesis by blast
  next
    case c2
    have "outcome_ok b dt (Charged (\<bar>p\<bar> * dt) p)"
      using dt c2 by (simp add: mult_nonpos_nonneg)
    moreover have "ApplyDispatch b lmp d dt = (Inr (fst (outcome_result b lmp (Charged (\<bar>p\<bar> * dt) p))),
                      snd (outcome_result b lmp (Charged (\<bar>p\<bar> * dt) p)))"
      using dt Fin c2 by (simp add: ApplyDispatch_def Let_def split: prod.splits)
    ultimately show ?thesis by blast
  next
    case d1
    have "outcome_ok b dt (Discharged ?md (?md / dt))"
      using dt maxDischarge_nonneg[of b dt] by simp
    moreover have "ApplyDispatch b lmp d dt = (Inr (fst (outcome_result b lmp (Discharged ?md (?md / dt)))),
                      snd (outcome_result b lmp (Discharged ?md (?md / dt))))"
      using dt Fin d1 by (simp add: ApplyDispatch_def Let_def split: prod.splits)
    ultimately show ?thesis by blast
  next
    case d2
    have "outcome_ok b dt (Discharged (p * dt) p)"
      using dt d2 by simp
    moreover have "ApplyDispatch b lmp d dt = (Inr (fst (outcome_result b lmp (Discharged (p * dt) p))),
                      snd (outcome_result b lmp (Discharged (p * dt) p)))"
      using dt Fin d2 by (simp add: ApplyDispatch_def Let_def split: prod.splits)
    ultimately show ?thesis by blast
  next
    case i
    have "ApplyDispatch b lmp d dt = (Inr (fst (outcome_result b lmp Idled)), snd (outcome_result b lmp Idled))"
      using dt Fin i by (simp add: ApplyDispatch_def Let_def split: prod.splits)
    then show ?thesis using outcome_ok.simps(3) by blast
  qed
next
  case PosInf
  let ?md = "maxDischargeEnergyToGridMWh b dt"
  have "outcome_ok b dt (Discharged ?md (?md / dt))"
    using dt maxDischarge_nonneg[of b dt] by simp
  moreover have "ApplyDispatch b lmp d dt = (Inr (fst (outcome_result b lmp (Discharged ?md (?md / dt)))),
                    snd (outcome_result b lmp (Discharged ?md (?md / dt))))"
    using dt PosInf by (simp add: ApplyDispatch_def Let_def split: prod.splits)
  ultimately show ?thesis by blast
next
  case NegInf
  let ?mc = "maxChargeEnergyFromGridMWh b dt"
  have "outcome_ok b dt (Charged ?mc (- ?mc / dt))"
    using dt maxCharge_nonneg[of b dt] by (simp add: divide_nonneg_pos)
  moreover have "ApplyDispatch b lmp d dt = (Inr (fst (outcome_result b lmp (Charged ?mc (- ?mc / dt)))),
                    snd (outcome_result b lmp (Charged ?mc (- ?mc / dt))))"
    using dt NegInf by (simp add: ApplyDispatch_def Let_def split: prod.splits)
  ultimately show ?thesis by blast
next
  case NaN
  have "ApplyDispatch b lmp d dt = (Inr (fst (outcome_result b lmp Idled)), snd (outcome_result b lmp Idled))"
    using dt NaN by (simp add: ApplyDispatch_def Let_def split: prod.splits)
  then show ?thesis using outcome_ok.simps(3) by blast
qed





subsection \<open>The planner's step in terms of the battery's limits\<close>












subsection \<open>The planner's step against the battery's step\<close>


text \<open>A concrete battery (100 MWh, 50 MW, 90 % efficiency each way) for the closed instances.\<close>

definition exampleParams :: BatteryParams where
  "exampleParams = \<lparr>EnergyCapacityMWh = 100, PowerCapacityMW = 50, ChargeEfficiency = 9/10,
     DischargeEfficiency = 9/10, MinSOC = 0, MaxSOC = 1, DegradationCostPerMWh = 0\<rparr>"



subsection \<open>The SOC bounds are an invariant of the step\<close>









subsection \<open>Energy balance of one step\<close>




section \<open>Market data (internal/model/marketdata.go)\<close>

text \<open>
  A \<^verbatim>\<open>time.Time\<close> of Go's standard library: an instant, in nanoseconds since the zero
  time (January 1, year 1, 00:00 UTC), and a location. The rows are parsed from RFC 3339
  strings, whose location is a fixed offset from UTC, kept in seconds east of UTC. The
  zero time is a midnight, so the wall clock and the calendar day follow from the local
  seconds since the zero time.
\<close>

record Time =
  nsec :: int
  zoneOffset :: int

definition IsZero :: "Time \<Rightarrow> bool" where
  "IsZero t = (nsec t = 0)"

definition Equal :: "Time \<Rightarrow> Time \<Rightarrow> bool" where
  "Equal t u = (nsec t = nsec u)"

definition localSeconds :: "Time \<Rightarrow> int" where
  "localSeconds t = nsec t div 1000000000 + zoneOffset t"

definition Hour :: "Time \<Rightarrow> int" where
  "Hour t = (localSeconds t mod 86400) div 3600"

definition Minute :: "Time \<Rightarrow> int" where
  "Minute t = (localSeconds t mod 3600) div 60"

text \<open>
  \<^verbatim>\<open>time.Date(t.Year(), t.Month(), t.Day(), 0, 0, 0, 0, t.Location())\<close>: the midnight
  that starts the calendar day of \<open>t\<close> in its own location.
\<close>

definition startOfDay :: "Time \<Rightarrow> Time" where
  "startOfDay t =
     \<lparr>nsec = ((localSeconds t div 86400) * 86400 - zoneOffset t) * 1000000000,
      zoneOffset = zoneOffset t\<rparr>"

text \<open>
  \<^verbatim>\<open>t.Sub(u)\<close> is a \<^verbatim>\<open>time.Duration\<close>, an \<^verbatim>\<open>int64\<close> of nanoseconds that saturates
  instead of wrapping; \<^verbatim>\<open>Duration.Hours\<close> adds the whole hours and the remainder of
  Go's truncating division.
\<close>

definition Sub :: "Time \<Rightarrow> Time \<Rightarrow> int" where
  "Sub t u = max (- (2 ^ 63)) (min (2 ^ 63 - 1) (nsec t - nsec u))"

definition Hours :: "int \<Rightarrow> real" where
  "Hours d =
     (let hour = d sdiv 3600000000000; nsec = d smod 3600000000000
      in real_of_int hour + real_of_int nsec / (60 * 60 * 1000000000))"

record LMPInterval =
  IntervalStartLocal :: Time
  IntervalStartUTC :: Time
  IntervalEndLocal :: Time
  IntervalEndUTC :: Time
  Market :: string
  Location :: string
  LocationType :: string
  LMP :: real
  Energy :: real
  Congestion :: real
  Loss :: real
  GHG :: real

definition Duration :: "LMPInterval \<Rightarrow> int" where
  "Duration i =
     (if \<not> IsZero (IntervalEndUTC i) \<and> \<not> IsZero (IntervalStartUTC i)
      then Sub (IntervalEndUTC i) (IntervalStartUTC i)
      else Sub (IntervalEndLocal i) (IntervalStartLocal i))"

definition DurationHours :: "LMPInterval \<Rightarrow> real" where
  "DurationHours i = Hours (Duration i)"

section \<open>Strategies and the engine (internal/strategy, internal/backtest/engine.go)\<close>

datatype Action = ActionCharging | ActionIdle | ActionDischarging

definition ActionFromPowerMW :: "real \<Rightarrow> Action" where
  "ActionFromPowerMW powerMW =
     (if powerMW < 0 then ActionCharging
      else if powerMW > 0 then ActionDischarging
      else ActionIdle)"

record Context =
  Index :: int
  Interval :: LMPInterval
  Battery :: Battery

text \<open>
  The \<^verbatim>\<open>Strategy\<close> interface: \<^verbatim>\<open>Decide\<close> is a method on a strategy object of its
  own state \<open>'s\<close>, which it may change; it returns a dispatch or panics (\<open>Inl\<close>). The
  context hands it the battery, which the strategies of this repository do not touch.
\<close>

type_synonym 's Strategy = "'s \<Rightarrow> Context \<Rightarrow> error + (Dispatch \<times> 's)"

record LedgerRow =
  Index :: int
  IntervalStartLocal :: Time
  IntervalEndLocal :: Time
  IntervalStartUTC :: Time
  IntervalEndUTC :: Time
  Location :: string
  Market :: string
  LMP :: real
  Action :: Action
  RequestedPowerMW :: float64
  PowerMW :: real
  EnergyFromGridMWh :: real
  EnergyToGridMWh :: real
  ThroughputMWh :: real
  SOCStart :: real
  SOCEnd :: real
  PNL :: real
  CumPNL :: real

record Result =
  Ledger :: "LedgerRow list"
  TotalPNL :: real
  FinalSOC :: real

text \<open>
  The loop of \<^verbatim>\<open>Run\<close> over the remaining intervals, with the loop's variables: the
  position \<open>idx\<close>, the strategy's state, the battery, the ledger so far and \<open>cum\<close>. It
  returns the ledger and \<open>cum\<close>, or the error, and in both cases the battery as the loop
  left it.
\<close>

fun runLoop ::
  "'s Strategy \<Rightarrow> LMPInterval list \<Rightarrow> nat \<Rightarrow> 's \<Rightarrow> Battery \<Rightarrow> LedgerRow list \<Rightarrow> real
     \<Rightarrow> (error + LedgerRow list \<times> real) \<times> Battery" where
  "runLoop strat [] idx s batt ledger cum = (Inr (ledger, cum), batt)"
| "runLoop strat (it # rest) idx s batt ledger cum =
     (let dtH = DurationHours it in
      case strat s \<lparr>Context.Index = int idx, Interval = it, Battery = batt\<rparr> of
        Inl e \<Rightarrow> (Inl (Panic e), batt)
      | Inr (req, s') \<Rightarrow>
          (case ApplyDispatch batt (LMPInterval.LMP it) req dtH of
             (Inl err, batt') \<Rightarrow> (Inl (ErrApplyDispatch idx err), batt')
           | (Inr res, batt') \<Rightarrow>
               let cum = cum + IntervalResult.PNL res;
                   row = \<lparr>LedgerRow.Index = int idx,
                          IntervalStartLocal = LMPInterval.IntervalStartLocal it,
                          IntervalEndLocal = LMPInterval.IntervalEndLocal it,
                          IntervalStartUTC = LMPInterval.IntervalStartUTC it,
                          IntervalEndUTC = LMPInterval.IntervalEndUTC it,
                          Location = LMPInterval.Location it,
                          Market = LMPInterval.Market it,
                          LMP = LMPInterval.LMP it,
                          Action = ActionFromPowerMW (IntervalResult.PowerMW res),
                          RequestedPowerMW = Dispatch.PowerMW req,
                          PowerMW = IntervalResult.PowerMW res,
                          EnergyFromGridMWh = IntervalResult.EnergyFromGridMWh res,
                          EnergyToGridMWh = IntervalResult.EnergyToGridMWh res,
                          ThroughputMWh = IntervalResult.ThroughputMWh res,
                          SOCStart = IntervalResult.SOCStart res,
                          SOCEnd = IntervalResult.SOCEnd res,
                          PNL = IntervalResult.PNL res,
                          CumPNL = cum\<rparr>
               in runLoop strat rest (idx + 1) s' batt' (ledger @ [row]) cum))"

text \<open>
  \<^verbatim>\<open>Engine.Run\<close>. The battery and the strategy are pointers and may be nil (\<open>None\<close>); a
  strategy is its \<^verbatim>\<open>Decide\<close> with its state. Next to the result or the error the
  model returns the battery after the run.
\<close>

definition Run ::
  "LMPInterval list \<Rightarrow> Battery option \<Rightarrow> ('s Strategy \<times> 's) option
     \<Rightarrow> (error + Result) \<times> Battery option" where
  "Run intervals batt strat =
     (case batt of
        None \<Rightarrow> (Inl ErrBatteryNil, None)
      | Some b \<Rightarrow>
          (case strat of
             None \<Rightarrow> (Inl ErrStrategyNil, Some b)
           | Some (decide, s) \<Rightarrow>
               if length intervals = 0 then (Inl ErrNoIntervals, Some b)
               else
                 (case runLoop decide intervals 0 s b [] 0 of
                    (Inl err, b') \<Rightarrow> (Inl err, Some b')
                  | (Inr (ledger, cum), b') \<Rightarrow>
                      (Inr \<lparr>Ledger = ledger, TotalPNL = cum, FinalSOC = SOC (State b')\<rparr>,
                       Some b'))))"

text \<open>
  \<^verbatim>\<open>OracleStrategy.Decide\<close>: the strategy's state is its plan, replayed by position.
\<close>

definition OracleDecide :: "Dispatch list Strategy" where
  "OracleDecide plan ctx =
     Inr (if Context.Index ctx < 0 \<or> Context.Index ctx \<ge> int (length plan)
          then \<lparr>Dispatch.PowerMW = Fin 0\<rparr>
          else plan ! nat (Context.Index ctx), plan)"

section \<open>Properties of the engine\<close>

subsection \<open>Concrete intervals\<close>

text \<open>
  One-hour intervals of one calendar day (UTC), starting \<open>h\<close> hours after a midnight, at
  price \<open>lmp\<close>.
\<close>

definition hourInterval :: "int \<Rightarrow> real \<Rightarrow> LMPInterval" where
  "hourInterval h lmp =
     \<lparr>LMPInterval.IntervalStartLocal = \<lparr>nsec = (63849600000 + h * 3600) * 1000000000, zoneOffset = 0\<rparr>,
      LMPInterval.IntervalStartUTC = \<lparr>nsec = (63849600000 + h * 3600) * 1000000000, zoneOffset = 0\<rparr>,
      LMPInterval.IntervalEndLocal = \<lparr>nsec = (63849600000 + (h + 1) * 3600) * 1000000000, zoneOffset = 0\<rparr>,
      LMPInterval.IntervalEndUTC = \<lparr>nsec = (63849600000 + (h + 1) * 3600) * 1000000000, zoneOffset = 0\<rparr>,
      LMPInterval.Market = ''M'', LMPInterval.Location = ''N'', LocationType = ''T'',
      LMPInterval.LMP = lmp, Energy = 0, Congestion = 0, Loss = 0, GHG = 0\<rparr>"

lemma Hours_eq: "Hours d = real_of_int d / 3600000000000"
proof -
  have "d sdiv 3600000000000 * 3600000000000 + d smod 3600000000000 = d"
    by (rule sdiv_mult_smod_eq)
  then have "real_of_int (d sdiv 3600000000000) * 3600000000000 + real_of_int (d smod 3600000000000)
               = real_of_int d"
    by (metis of_int_add of_int_mult of_int_numeral)
  then show ?thesis unfolding Hours_def Let_def by (simp add: field_simps)
qed

lemma DurationHours_hourInterval: "DurationHours (hourInterval h lmp) = 1"
  by (simp add: DurationHours_def Hours_eq Duration_def hourInterval_def IsZero_def Sub_def
        algebra_simps)

lemma LMP_hourInterval: "LMPInterval.LMP (hourInterval h lmp) = lmp"
  by (simp add: hourInterval_def)

lemma OracleDecide_total: "\<forall>plan ctx. \<exists>d plan'. OracleDecide plan ctx = Inr (d, plan')"
  by (simp add: OracleDecide_def)

subsection \<open>The ledger's running total\<close>

text \<open>The loop invariant: every row's \<open>CumPNL\<close> is the sum of the \<open>PNL\<close> up to that row.\<close>

definition cumOK :: "LedgerRow list \<Rightarrow> bool" where
  "cumOK ledger = (\<forall>i<length ledger. CumPNL (ledger ! i) = sum_list (map LedgerRow.PNL (take (Suc i) ledger)))"

lemma cumOK_snoc:
  assumes "cumOK ledger" and "CumPNL row = sum_list (map LedgerRow.PNL ledger) + LedgerRow.PNL row"
  shows "cumOK (ledger @ [row])"
  unfolding cumOK_def
proof (intro allI impI)
  fix i assume i: "i < length (ledger @ [row])"
  show "CumPNL ((ledger @ [row]) ! i) = sum_list (map LedgerRow.PNL (take (Suc i) (ledger @ [row])))"
  proof (cases "i < length ledger")
    case True
    then show ?thesis using assms(1) by (simp add: cumOK_def nth_append)
  next
    case False
    with i have "i = length ledger" by simp
    then show ?thesis using assms(2) by simp
  qed
qed

lemma runLoop_cum:
  assumes "runLoop strat its idx s batt ledger cum = (Inr (ledger', cum'), b')"
    and "cumOK ledger" and "cum = sum_list (map LedgerRow.PNL ledger)"
  shows "cumOK ledger' \<and> cum' = sum_list (map LedgerRow.PNL ledger')
           \<and> length ledger' = length ledger + length its"
  using assms
proof (induction its arbitrary: idx s batt ledger cum)
  case Nil
  then show ?case by auto
next
  case (Cons it rest)
  from Cons.prems(1) obtain req s' where dec:
    "strat s \<lparr>Context.Index = int idx, Interval = it, Battery = batt\<rparr> = Inr (req, s')"
    by (auto simp: Let_def split: sum.splits)
  from Cons.prems(1) dec obtain res batt' where ap:
    "ApplyDispatch batt (LMPInterval.LMP it) req (DurationHours it) = (Inr res, batt')"
    by (auto simp: Let_def split: sum.splits prod.splits)
  define row where "row = \<lparr>LedgerRow.Index = int idx,
                          IntervalStartLocal = LMPInterval.IntervalStartLocal it,
                          IntervalEndLocal = LMPInterval.IntervalEndLocal it,
                          IntervalStartUTC = LMPInterval.IntervalStartUTC it,
                          IntervalEndUTC = LMPInterval.IntervalEndUTC it,
                          Location = LMPInterval.Location it,
                          Market = LMPInterval.Market it,
                          LMP = LMPInterval.LMP it,
                          Action = ActionFromPowerMW (IntervalResult.PowerMW res),
                          RequestedPowerMW = Dispatch.PowerMW req,
                          PowerMW = IntervalResult.PowerMW res,
                          EnergyFromGridMWh = IntervalResult.EnergyFromGridMWh res,
                          EnergyToGridMWh = IntervalResult.EnergyToGridMWh res,
                          ThroughputMWh = IntervalResult.ThroughputMWh res,
                          SOCStart = IntervalResult.SOCStart res,
                          SOCEnd = IntervalResult.SOCEnd res,
                          PNL = IntervalResult.PNL res,
                          CumPNL = cum + IntervalResult.PNL res\<rparr>"
  have step: "runLoop strat rest (idx + 1) s' batt' (ledger @ [row]) (cum + IntervalResult.PNL res)
                = (Inr (ledger', cum'), b')"
    using Cons.prems(1) dec ap by (simp add: Let_def row_def)
  have ok: "cumOK (ledger @ [row])"
    by (rule cumOK_snoc[OF Cons.prems(2)]) (simp add: row_def Cons.prems(3))
  have cum: "cum + IntervalResult.PNL res = sum_list (map LedgerRow.PNL (ledger @ [row]))"
    by (simp add: row_def Cons.prems(3))
  from Cons.IH[OF step ok cum] show ?case by simp
qed

lemma runLoop_succeeds:
  assumes "\<forall>it\<in>set its. 0 < DurationHours it"
    and "\<forall>s ctx. \<exists>d s'. strat s ctx = Inr (d, s')"
  shows "\<exists>ledger' cum' b'. runLoop strat its idx s batt ledger cum = (Inr (ledger', cum'), b')"
  using assms(1)
proof (induction its arbitrary: idx s batt ledger cum)
  case Nil
  then show ?case by simp
next
  case (Cons it rest)
  from assms(2) obtain req s' where dec:
    "strat s \<lparr>Context.Index = int idx, Interval = it, Battery = batt\<rparr> = Inr (req, s')"
    by blast
  from Cons.prems have dt: "0 < DurationHours it" by simp
  from ApplyDispatch_outcome[OF dt, of batt "LMPInterval.LMP it" req] obtain res batt' where ap:
    "ApplyDispatch batt (LMPInterval.LMP it) req (DurationHours it) = (Inr res, batt')"
    by blast
  from Cons.prems have "\<forall>it\<in>set rest. 0 < DurationHours it" by simp
  from Cons.IH[OF this] show ?case using dec ap by (simp add: Let_def)
qed

lemma Run_succeeds:
  assumes "intervals \<noteq> []" and "\<forall>it\<in>set intervals. 0 < DurationHours it"
    and "\<forall>s ctx. \<exists>d s'. decide s ctx = Inr (d, s')"
  shows "\<exists>res b'. Run intervals (Some b) (Some (decide, s)) = (Inr res, Some b')"
proof -
  from runLoop_succeeds[OF assms(2,3), of 0 s b "[]" 0] obtain ledger cum b' where
    "runLoop decide intervals 0 s b [] 0 = (Inr (ledger, cum), b')" by blast
  then show ?thesis using assms(1) by (simp add: Run_def)
qed

text \<open>
  Claim C9. For every successful \<open>Run\<close>: each ledger row's \<open>CumPNL\<close> is the sum of the
  \<open>PNL\<close> fields of the rows up to and including it, the ledger has one row per interval
  (so it is not empty), and the result's \<open>TotalPNL\<close> is the last row's \<open>CumPNL\<close>.
\<close>

theorem cum_pnl_prefix_sums:
  assumes "Run intervals batt strat = (Inr res, b')"
  shows "(\<forall>i<length (Ledger res).
            CumPNL (Ledger res ! i) = sum_list (map LedgerRow.PNL (take (Suc i) (Ledger res))))
       \<and> length (Ledger res) = length intervals
       \<and> Ledger res \<noteq> []
       \<and> TotalPNL res = CumPNL (last (Ledger res))"
proof -
  from assms obtain b decide s where b: "batt = Some b" and st: "strat = Some (decide, s)"
    and ne: "intervals \<noteq> []"
    by (auto simp: Run_def split: option.splits if_splits)
  from assms b st ne obtain ledger cum b1 where
    loop: "runLoop decide intervals 0 s b [] 0 = (Inr (ledger, cum), b1)"
    and res: "res = \<lparr>Ledger = ledger, TotalPNL = cum, FinalSOC = SOC (State b1)\<rparr>"
    by (auto simp: Run_def split: prod.splits sum.splits)
  have "cumOK []" by (simp add: cumOK_def)
  from runLoop_cum[OF loop this] have ok: "cumOK ledger"
    and cum: "cum = sum_list (map LedgerRow.PNL ledger)" and len: "length ledger = length intervals"
    by simp_all
  from len ne have lne: "ledger \<noteq> []" by auto
  then have "last ledger = ledger ! (length ledger - 1)" by (rule last_conv_nth)
  moreover from lne have "length ledger - 1 < length ledger" by simp
  ultimately have "CumPNL (last ledger) = sum_list (map LedgerRow.PNL (take (Suc (length ledger - 1)) ledger))"
    using ok unfolding cumOK_def by metis
  also have "\<dots> = cum" using lne cum by simp
  finally have "cum = CumPNL (last ledger)" by simp
  with ok len lne show ?thesis unfolding res cumOK_def by simp
qed

theorem cum_pnl_prefix_sums_witness:
  "\<exists>res b'. Run [hourInterval 0 10, hourInterval 1 100]
                (Some \<lparr>Params = exampleParams, State = \<lparr>SOC = 1/2\<rparr>\<rparr>)
                (Some (OracleDecide, [\<lparr>Dispatch.PowerMW = Fin (- 50)\<rparr>, \<lparr>Dispatch.PowerMW = Fin 50\<rparr>]))
              = (Inr res, b')
        \<and> length (Ledger res) = 2 \<and> TotalPNL res = CumPNL (last (Ledger res))
        \<and> CumPNL (Ledger res ! 0) = sum_list (map LedgerRow.PNL (take 1 (Ledger res)))
        \<and> CumPNL (Ledger res ! 1) = sum_list (map LedgerRow.PNL (take 2 (Ledger res)))"
proof -
  have "[hourInterval 0 10, hourInterval 1 100] \<noteq> []"
    and "\<forall>it\<in>set [hourInterval 0 10, hourInterval 1 100]. 0 < DurationHours it"
    by (simp_all add: DurationHours_hourInterval)
  from Run_succeeds[OF this OracleDecide_total] obtain res b' where
    run: "Run [hourInterval 0 10, hourInterval 1 100]
                (Some \<lparr>Params = exampleParams, State = \<lparr>SOC = 1/2\<rparr>\<rparr>)
                (Some (OracleDecide, [\<lparr>Dispatch.PowerMW = Fin (- 50)\<rparr>, \<lparr>Dispatch.PowerMW = Fin 50\<rparr>]))
              = (Inr res, Some b')" by blast
  from cum_pnl_prefix_sums[OF run] have
    "length (Ledger res) = 2 \<and> TotalPNL res = CumPNL (last (Ledger res))
        \<and> CumPNL (Ledger res ! 0) = sum_list (map LedgerRow.PNL (take 1 (Ledger res)))
        \<and> CumPNL (Ledger res ! 1) = sum_list (map LedgerRow.PNL (take 2 (Ledger res)))"
    by (simp add: numeral_2_eq_2)
  with run show ?thesis by blast
qed

subsection \<open>A non-positive duration\<close>

lemma ApplyDispatch_nonpositive: "dt \<le> 0 \<Longrightarrow> ApplyDispatch b lmp d dt = (Inl ErrDurationHours, b)"
  by (simp add: ApplyDispatch_def)

lemma runLoop_duration_failure:
  assumes "DurationHours it \<le> 0"
  shows "\<exists>err. runLoop strat (pre @ it # post) idx s batt ledger cum
                 = (Inl err, snd (runLoop strat pre idx s batt ledger cum))"
proof (induction pre arbitrary: idx s batt ledger cum)
  case Nil
  show ?case
    using assms by (simp add: ApplyDispatch_nonpositive split: sum.splits prod.splits)
next
  case (Cons p pre)
  show ?case
  proof (cases "strat s \<lparr>Context.Index = int idx, Interval = p, Battery = batt\<rparr>")
    case (Inl e)
    then show ?thesis by simp
  next
    case (Inr r)
    obtain req s' where r: "r = (req, s')" by (cases r) auto
    obtain out batt' where ap:
      "ApplyDispatch batt (LMPInterval.LMP p) req (DurationHours p) = (out, batt')"
      by (cases "ApplyDispatch batt (LMPInterval.LMP p) req (DurationHours p)") auto
    show ?thesis
    proof (cases out)
      case (Inl err)
      then show ?thesis using Inr r ap by simp
    next
      case res: (Inr res)
      show ?thesis using Inr r ap res Cons.IH by (simp add: Let_def)
    qed
  qed
qed

text \<open>
  Claim C10. For every battery and every dispatch, \<open>ApplyDispatch\<close> with a duration
  \<open>\<le> 0\<close> returns the error and the battery unchanged; and when \<open>Run\<close> reaches an
  interval of non-positive duration it fails, and the battery it leaves is the battery as
  it was after the intervals before that one.
\<close>

theorem duration_failure_leaves_battery:
  assumes "dt \<le> 0" and "DurationHours it \<le> 0"
  shows "ApplyDispatch b lmp d dt = (Inl ErrDurationHours, b)
       \<and> (\<exists>err. Run (pre @ it # post) (Some b) (Some (decide, s))
                   = (Inl err, Some (snd (runLoop decide pre 0 s b [] 0))))"
proof -
  from runLoop_duration_failure[OF assms(2), of decide pre post 0 s b "[]" 0]
  obtain err where "runLoop decide (pre @ it # post) 0 s b [] 0
                 = (Inl err, snd (runLoop decide pre 0 s b [] 0))" by blast
  then have "Run (pre @ it # post) (Some b) (Some (decide, s))
                   = (Inl err, Some (snd (runLoop decide pre 0 s b [] 0)))"
    by (simp add: Run_def)
  with ApplyDispatch_nonpositive[OF assms(1)] show ?thesis by blast
qed

definition zeroLengthInterval :: LMPInterval where
  "zeroLengthInterval =
     (hourInterval 1 10)\<lparr>LMPInterval.IntervalEndUTC :=
                            LMPInterval.IntervalStartUTC (hourInterval 1 10)\<rparr>"

lemma DurationHours_zeroLengthInterval: "DurationHours zeroLengthInterval = 0"
  by (simp add: zeroLengthInterval_def DurationHours_def Hours_eq Duration_def hourInterval_def
        IsZero_def Sub_def)

theorem duration_failure_leaves_battery_witness:
  "ApplyDispatch \<lparr>Params = exampleParams, State = \<lparr>SOC = 1/2\<rparr>\<rparr> 10
      \<lparr>Dispatch.PowerMW = Fin 50\<rparr> (- 1)
     = (Inl ErrDurationHours, \<lparr>Params = exampleParams, State = \<lparr>SOC = 1/2\<rparr>\<rparr>)
   \<and> (\<exists>err. Run ([hourInterval 0 10] @ zeroLengthInterval # [hourInterval 2 10])
               (Some \<lparr>Params = exampleParams, State = \<lparr>SOC = 1/2\<rparr>\<rparr>)
               (Some (OracleDecide, [\<lparr>Dispatch.PowerMW = Fin (- 50)\<rparr>]))
             = (Inl err, Some (snd (runLoop OracleDecide [hourInterval 0 10] 0
                                   [\<lparr>Dispatch.PowerMW = Fin (- 50)\<rparr>]
                                   \<lparr>Params = exampleParams, State = \<lparr>SOC = 1/2\<rparr>\<rparr> [] 0))))"
proof -
  have "(- 1 :: real) \<le> 0" and "DurationHours zeroLengthInterval \<le> 0"
    by (simp_all add: DurationHours_zeroLengthInterval)
  from duration_failure_leaves_battery[OF this] show ?thesis .
qed

subsection \<open>Non-finite requests\<close>

text \<open>A strategy that returns NaN for every interval.\<close>

definition nanStrategy :: "unit Strategy" where
  "nanStrategy s ctx = Inr (\<lparr>Dispatch.PowerMW = NaN\<rparr>, s)"

lemma ApplyDispatch_NaN:
  "0 < dt \<Longrightarrow> ApplyDispatch b lmp \<lparr>Dispatch.PowerMW = NaN\<rparr> dt =
     (Inr \<lparr>IntervalResult.PowerMW = 0, EnergyToGridMWh = 0, EnergyFromGridMWh = 0,
            ThroughputMWh = 0, SOCStart = SOC (State b), SOCEnd = SOC (State b), PNL = 0\<rparr>, b)"
  by (simp add: ApplyDispatch_def ClipDispatch_def idleBranch_def CalculateIntervalPnL_def Let_def)

lemma ApplyDispatch_PosInf:
  "0 < PowerCapacityMW (Params b) \<Longrightarrow>
   ApplyDispatch b lmp \<lparr>Dispatch.PowerMW = PosInf\<rparr> dt =
   ApplyDispatch b lmp \<lparr>Dispatch.PowerMW = Fin (PowerCapacityMW (Params b))\<rparr> dt"
  by (simp add: ApplyDispatch_def ClipDispatch_def Let_def)

lemma ApplyDispatch_NegInf:
  "0 < PowerCapacityMW (Params b) \<Longrightarrow>
   ApplyDispatch b lmp \<lparr>Dispatch.PowerMW = NegInf\<rparr> dt =
   ApplyDispatch b lmp \<lparr>Dispatch.PowerMW = Fin (- PowerCapacityMW (Params b))\<rparr> dt"
  by (simp add: ApplyDispatch_def ClipDispatch_def Let_def)

text \<open>
  Claim C4 says that a run fails when \<open>Decide\<close> returns a non-finite power. It does
  not: neither \<open>Run\<close> nor \<open>ApplyDispatch\<close> nor \<open>ClipDispatch\<close> tests the request for
  NaN or infinity. With the strategy that always returns NaN, a one-interval run returns
  a result, with an idle row whose requested power is NaN.
\<close>

theorem nan_strategy_run_succeeds:
  "Run [hourInterval 0 50] (Some \<lparr>Params = exampleParams, State = \<lparr>SOC = 1/2\<rparr>\<rparr>)
       (Some (nanStrategy, ()))
   = (Inr \<lparr>Ledger = [\<lparr>LedgerRow.Index = 0,
                        IntervalStartLocal = LMPInterval.IntervalStartLocal (hourInterval 0 50),
                        IntervalEndLocal = LMPInterval.IntervalEndLocal (hourInterval 0 50),
                        IntervalStartUTC = LMPInterval.IntervalStartUTC (hourInterval 0 50),
                        IntervalEndUTC = LMPInterval.IntervalEndUTC (hourInterval 0 50),
                        Location = ''N'', Market = ''M'', LMP = 50, Action = ActionIdle,
                        RequestedPowerMW = NaN, PowerMW = 0, EnergyFromGridMWh = 0,
                        EnergyToGridMWh = 0, ThroughputMWh = 0, SOCStart = 1/2, SOCEnd = 1/2,
                        PNL = 0, CumPNL = 0\<rparr>],
           TotalPNL = 0, FinalSOC = 1/2\<rparr>,
      Some \<lparr>Params = exampleParams, State = \<lparr>SOC = 1/2\<rparr>\<rparr>)"
  by (simp add: Run_def nanStrategy_def DurationHours_hourInterval ApplyDispatch_NaN
        ActionFromPowerMW_def LMP_hourInterval Let_def)
    (simp add: hourInterval_def)

text \<open>
  Claim C4 as amended. A non-finite power returned by \<open>Decide\<close> does not make the run
  fail: on a non-empty interval list with positive durations, with a battery and a
  strategy that does not panic, \<open>Run\<close> returns a result whatever powers the strategy
  returns. \<open>ApplyDispatch\<close> treats NaN as idle (realized power 0, no energy moved, SOC
  unchanged, PnL 0), and an infinite request as a request of the power capacity with the
  same sign.
\<close>

theorem nonfinite_request_does_not_fail:
  assumes "intervals \<noteq> []" and "\<forall>it\<in>set intervals. 0 < DurationHours it"
    and "\<forall>s ctx. \<exists>d s'. decide s ctx = Inr (d, s')"
    and "0 < dt" and "0 < PowerCapacityMW (Params b)"
  shows "(\<exists>res b'. Run intervals (Some b) (Some (decide, s)) = (Inr res, Some b'))
       \<and> ApplyDispatch b lmp \<lparr>Dispatch.PowerMW = NaN\<rparr> dt =
           (Inr \<lparr>IntervalResult.PowerMW = 0, EnergyToGridMWh = 0, EnergyFromGridMWh = 0,
                  ThroughputMWh = 0, SOCStart = SOC (State b), SOCEnd = SOC (State b), PNL = 0\<rparr>, b)
       \<and> ApplyDispatch b lmp \<lparr>Dispatch.PowerMW = PosInf\<rparr> dt =
           ApplyDispatch b lmp \<lparr>Dispatch.PowerMW = Fin (PowerCapacityMW (Params b))\<rparr> dt
       \<and> ApplyDispatch b lmp \<lparr>Dispatch.PowerMW = NegInf\<rparr> dt =
           ApplyDispatch b lmp \<lparr>Dispatch.PowerMW = Fin (- PowerCapacityMW (Params b))\<rparr> dt"
  using Run_succeeds[OF assms(1,2,3)] ApplyDispatch_NaN[OF assms(4)]
    ApplyDispatch_PosInf[OF assms(5)] ApplyDispatch_NegInf[OF assms(5)]
  by simp

theorem nonfinite_request_does_not_fail_witness:
  "(\<exists>res b'. Run [hourInterval 0 50] (Some \<lparr>Params = exampleParams, State = \<lparr>SOC = 1/2\<rparr>\<rparr>)
                (Some (nanStrategy, ())) = (Inr res, Some b'))
   \<and> ApplyDispatch \<lparr>Params = exampleParams, State = \<lparr>SOC = 1/2\<rparr>\<rparr> 50 \<lparr>Dispatch.PowerMW = NaN\<rparr> 1 =
       (Inr \<lparr>IntervalResult.PowerMW = 0, EnergyToGridMWh = 0, EnergyFromGridMWh = 0,
              ThroughputMWh = 0, SOCStart = 1/2, SOCEnd = 1/2, PNL = 0\<rparr>,
        \<lparr>Params = exampleParams, State = \<lparr>SOC = 1/2\<rparr>\<rparr>)
   \<and> ApplyDispatch \<lparr>Params = exampleParams, State = \<lparr>SOC = 1/2\<rparr>\<rparr> 50 \<lparr>Dispatch.PowerMW = PosInf\<rparr> 1 =
       ApplyDispatch \<lparr>Params = exampleParams, State = \<lparr>SOC = 1/2\<rparr>\<rparr> 50 \<lparr>Dispatch.PowerMW = Fin 50\<rparr> 1
   \<and> ApplyDispatch \<lparr>Params = exampleParams, State = \<lparr>SOC = 1/2\<rparr>\<rparr> 50 \<lparr>Dispatch.PowerMW = NegInf\<rparr> 1 =
       ApplyDispatch \<lparr>Params = exampleParams, State = \<lparr>SOC = 1/2\<rparr>\<rparr> 50 \<lparr>Dispatch.PowerMW = Fin (- 50)\<rparr> 1"
proof -
  have 1: "[hourInterval 0 50] \<noteq> []" by simp
  have 2: "\<forall>it\<in>set [hourInterval 0 50]. 0 < DurationHours it"
    by (simp add: DurationHours_hourInterval)
  have 3: "\<forall>s ctx. \<exists>d s'. nanStrategy s ctx = Inr (d, s')" by (simp add: nanStrategy_def)
  have 4: "(0::real) < 1" by simp
  have 5: "0 < PowerCapacityMW (Params \<lparr>Params = exampleParams, State = \<lparr>SOC = 1/2\<rparr>\<rparr>)"
    by (simp add: exampleParams_def)
  from nonfinite_request_does_not_fail[OF 1 2 3 4 5, of "()" 50] show ?thesis
    by (simp add: exampleParams_def)
qed

section \<open>Schedule strategy (internal/strategy/schedule.go)\<close>

record ScheduleParams =
  ChargeStart :: string
  ChargeEnd :: string
  DischargeStart :: string
  DischargeEnd :: string
  ChargePowerMW :: real
  DischargePowerMW :: real

record ScheduleStrategy =
  Params :: ScheduleParams
  initialized :: bool
  csMins :: int
  ceMins :: int
  dsMins :: int
  deMins :: int

text \<open>
  \<^verbatim>\<open>strings.TrimSpace\<close> on the ASCII white space, and \<^verbatim>\<open>strings.Split\<close> at a
  one-character separator.
\<close>

definition isSpace :: "char \<Rightarrow> bool" where
  "isSpace c = (c \<in> set [CHR '' '', CHR 0x09, CHR 0x0A, CHR 0x0B, CHR 0x0C, CHR 0x0D])"

definition TrimSpace :: "string \<Rightarrow> string" where
  "TrimSpace s = rev (dropWhile isSpace (rev (dropWhile isSpace s)))"

fun Split :: "string \<Rightarrow> char \<Rightarrow> string list" where
  "Split [] sep = [[]]"
| "Split (c # cs) sep =
     (if c = sep then [] # Split cs sep
      else (case Split cs sep of part # parts \<Rightarrow> (c # part) # parts | [] \<Rightarrow> [[c]]))"

text \<open>
  \<^verbatim>\<open>parseHHMM\<close>. The scanner \<^verbatim>\<open>fmt.Sscanf(part, "%d", &n)\<close> of the standard library
  is the parameter \<open>scan\<close>: the integer it reads, or \<open>None\<close> when it reports an error.
\<close>

definition parseHHMM :: "(string \<Rightarrow> int option) \<Rightarrow> string \<Rightarrow> error + int" where
  "parseHHMM scan s0 =
     (let s = TrimSpace s0; parts = Split s (CHR '':'') in
      if length parts \<noteq> 2 then Inl (ErrInvalidTime s)
      else
        (case scan (parts ! 0) of
           None \<Rightarrow> Inl (ErrInvalidHour s)
         | Some h \<Rightarrow>
             (case scan (parts ! 1) of
                None \<Rightarrow> Inl (ErrInvalidMinute s)
              | Some m \<Rightarrow>
                  if h < 0 \<or> h > 23 \<or> m < 0 \<or> m > 59 then Inl (ErrInvalidTime s)
                  else Inr (h * 60 + m))))"

definition inWindow :: "int \<Rightarrow> int \<Rightarrow> int \<Rightarrow> bool" where
  "inWindow tMins start end =
     (if start = end then False
      else if start < end then tMins \<ge> start \<and> tMins < end
      else tMins \<ge> start \<or> tMins < end)"

text \<open>
  The block \<^verbatim>\<open>if !s.initialized { ... }\<close> of \<^verbatim>\<open>Decide\<close>: the strategy with its
  window minutes set, or the error the block panics with.
\<close>

definition ensureInitialized ::
  "(string \<Rightarrow> int option) \<Rightarrow> ScheduleStrategy \<Rightarrow> error + ScheduleStrategy" where
  "ensureInitialized scan s =
     (if initialized s then Inr s
      else
        (case parseHHMM scan (ChargeStart (ScheduleStrategy.Params s)) of
           Inl err \<Rightarrow> Inl err
         | Inr cs \<Rightarrow>
        (case parseHHMM scan (DischargeStart (ScheduleStrategy.Params s)) of
           Inl err \<Rightarrow> Inl err
         | Inr ds \<Rightarrow>
        (case (if TrimSpace (ChargeEnd (ScheduleStrategy.Params s)) \<noteq> ''''
               then parseHHMM scan (ChargeEnd (ScheduleStrategy.Params s)) else Inr ds) of
           Inl err \<Rightarrow> Inl err
         | Inr ce \<Rightarrow>
        (case (if TrimSpace (DischargeEnd (ScheduleStrategy.Params s)) \<noteq> ''''
               then parseHHMM scan (DischargeEnd (ScheduleStrategy.Params s)) else Inr ds) of
           Inl err \<Rightarrow> Inl err
         | Inr de \<Rightarrow>
             Inr (s\<lparr>csMins := cs, ceMins := ce, dsMins := ds, deMins := de,
                    initialized := True\<rparr>))))))"

definition ScheduleDecide :: "(string \<Rightarrow> int option) \<Rightarrow> ScheduleStrategy Strategy" where
  "ScheduleDecide scan s0 ctx =
     (case ensureInitialized scan s0 of
        Inl err \<Rightarrow> Inl err
      | Inr s \<Rightarrow>
          let mins = Hour (LMPInterval.IntervalStartLocal (Interval ctx)) * 60
                     + Minute (LMPInterval.IntervalStartLocal (Interval ctx))
          in if inWindow mins (csMins s) (ceMins s)
             then Inr (\<lparr>Dispatch.PowerMW = Fin (- \<bar>ChargePowerMW (ScheduleStrategy.Params s)\<bar>)\<rparr>, s)
             else if inWindow mins (dsMins s) (deMins s)
             then Inr (\<lparr>Dispatch.PowerMW = Fin \<bar>DischargePowerMW (ScheduleStrategy.Params s)\<bar>\<rparr>, s)
             else Inr (\<lparr>Dispatch.PowerMW = Fin 0\<rparr>, s))"

subsection \<open>Windows and decision\<close>

text \<open>The minute of the day \<^verbatim>\<open>Decide\<close> tests: hour times 60 plus minute of the local start.\<close>

definition minuteOfDay :: "Context \<Rightarrow> int" where
  "minuteOfDay ctx = Hour (LMPInterval.IntervalStartLocal (Interval ctx)) * 60
                     + Minute (LMPInterval.IntervalStartLocal (Interval ctx))"

text \<open>
  Claim C7. For every minute \<open>t\<close> and every pair of endpoints, the window test is false
  when \<open>start = end\<close>, is \<open>start \<le> t < end\<close> when \<open>start < end\<close>, and is
  \<open>t \<ge> start \<or> t < end\<close> when \<open>start > end\<close>. With the window minutes \<open>Decide\<close> works
  with (those stored in an initialized strategy, or those its first call parses), the
  decision is \<open>- |ChargePowerMW|\<close> when the minute of the day is in the charge window
  (tested first, so charge wins where the windows overlap), \<open>+ |DischargePowerMW|\<close> when it
  is only in the discharge window, and 0 otherwise.
\<close>

theorem schedule_window_and_decision:
  assumes "ensureInitialized scan s0 = Inr s"
  shows "(start = end \<longrightarrow> \<not> inWindow t start end)
       \<and> (start < end \<longrightarrow> inWindow t start end = (start \<le> t \<and> t < end))
       \<and> (start > end \<longrightarrow> inWindow t start end = (t \<ge> start \<or> t < end))
       \<and> (inWindow (minuteOfDay ctx) (csMins s) (ceMins s) \<longrightarrow>
            ScheduleDecide scan s0 ctx
              = Inr (\<lparr>Dispatch.PowerMW = Fin (- \<bar>ChargePowerMW (ScheduleStrategy.Params s)\<bar>)\<rparr>, s))
       \<and> (\<not> inWindow (minuteOfDay ctx) (csMins s) (ceMins s)
            \<and> inWindow (minuteOfDay ctx) (dsMins s) (deMins s) \<longrightarrow>
            ScheduleDecide scan s0 ctx
              = Inr (\<lparr>Dispatch.PowerMW = Fin \<bar>DischargePowerMW (ScheduleStrategy.Params s)\<bar>\<rparr>, s))
       \<and> (\<not> inWindow (minuteOfDay ctx) (csMins s) (ceMins s)
            \<and> \<not> inWindow (minuteOfDay ctx) (dsMins s) (deMins s) \<longrightarrow>
            ScheduleDecide scan s0 ctx = Inr (\<lparr>Dispatch.PowerMW = Fin 0\<rparr>, s))"
  using assms by (auto simp: inWindow_def ScheduleDecide_def minuteOfDay_def Let_def)

text \<open>
  An initialized strategy whose charge window wraps midnight (22:00 to 02:00) and
  overlaps its discharge window (23:00 to 07:00), asked at 23:00.
\<close>

definition wrapSchedule :: ScheduleStrategy where
  "wrapSchedule =
     \<lparr>ScheduleStrategy.Params =
        \<lparr>ChargeStart = ''22:00'', ChargeEnd = ''02:00'', DischargeStart = ''23:00'',
         DischargeEnd = ''07:00'', ChargePowerMW = 30, DischargePowerMW = 40\<rparr>,
      initialized = True, csMins = 1320, ceMins = 120, dsMins = 1380, deMins = 420\<rparr>"

lemma minuteOfDay_hour23:
  "minuteOfDay \<lparr>Context.Index = 0, Interval = hourInterval 23 10, Battery = b\<rparr> = 1380"
  by (simp add: minuteOfDay_def hourInterval_def Hour_def Minute_def localSeconds_def)

theorem schedule_window_and_decision_witness:
  "ensureInitialized (\<lambda>part. None) wrapSchedule = Inr wrapSchedule
   \<and> inWindow 1350 1320 120 = (1350 \<ge> (1320::int) \<or> 1350 < (120::int))
   \<and> ScheduleDecide (\<lambda>part. None) wrapSchedule
        \<lparr>Context.Index = 0, Interval = hourInterval 23 10,
         Battery = \<lparr>Battery.Params = exampleParams, State = \<lparr>SOC = 1/2\<rparr>\<rparr>\<rparr>
      = Inr (\<lparr>Dispatch.PowerMW = Fin (- 30)\<rparr>, wrapSchedule)"
proof -
  have init: "ensureInitialized (\<lambda>part. None) wrapSchedule = Inr wrapSchedule"
    by (simp add: ensureInitialized_def wrapSchedule_def)
  have w: "inWindow 1380 (csMins wrapSchedule) (ceMins wrapSchedule)"
    by (simp add: inWindow_def wrapSchedule_def)
  have p: "- \<bar>ChargePowerMW (ScheduleStrategy.Params wrapSchedule)\<bar> = - 30"
    by (simp add: wrapSchedule_def)
  from schedule_window_and_decision[OF init, of 1320 120 1350
      "\<lparr>Context.Index = 0, Interval = hourInterval 23 10,
         Battery = \<lparr>Battery.Params = exampleParams, State = \<lparr>SOC = 1/2\<rparr>\<rparr>\<rparr>"]
  show ?thesis using init w p by (simp add: minuteOfDay_hour23)
qed

section \<open>Node ranking (internal/analysis/rank.go)\<close>

text \<open>
  \<open>MinLMP\<close> and \<open>MaxLMP\<close> are \<open>float64\<close>: the loop that computes them starts from the
  infinities. \<^verbatim>\<open>sort.Float64s\<close> is \<open>sort\<close>.
\<close>

record ArbitragePotential =
  Location :: string
  Market :: string
  StartUTC :: Time
  EndUTC :: Time
  Count :: int
  MinLMP :: float64
  MaxLMP :: float64
  MeanLMP :: real
  P05LMP :: real
  P95LMP :: real
  SpreadP95P05 :: real
  OracleProfit :: real

text \<open>\<^verbatim>\<open>math.Round\<close>: to the nearest integer, halves away from zero.\<close>

definition goRound :: "real \<Rightarrow> int" where
  "goRound x = (if x \<ge> 0 then \<lfloor>x + 1/2\<rfloor> else \<lceil>x - 1/2\<rceil>)"

definition negInf :: real where
  "negInf = - (10 ^ 100)"







subsection \<open>A constant price offset\<close>










section \<open>Oracle strategy (package strategy, in internal/data/locations.go)\<close>

text \<open>
  The planner's arrays \<^verbatim>\<open>dp\<close>, \<^verbatim>\<open>next\<close>, \<^verbatim>\<open>choice[t]\<close> and \<^verbatim>\<open>powerChosen[t]\<close> are
  lists. A position computed from data (\<^verbatim>\<open>socToIdx\<close>, a recorded choice) is tested
  against the bounds as Go's run time does, and a position out of range is the panic
  \<open>PanicIndexOutOfRange\<close>; the loop counters are in range by construction.
\<close>

record OracleParams =
  SocSteps :: int
  PowerSteps :: int

definition socToIdx :: "BatteryParams \<Rightarrow> int \<Rightarrow> real \<Rightarrow> int" where
  "socToIdx p socSteps soc =
     (if soc \<le> MinSOC p then 0
      else if soc \<ge> MaxSOC p then socSteps
      else
        let f = (soc - MinSOC p) / (MaxSOC p - MinSOC p)
        in goRound (f * real_of_int socSteps))"

definition idxToSoc :: "BatteryParams \<Rightarrow> int \<Rightarrow> int \<Rightarrow> real" where
  "idxToSoc p socSteps idx =
     (if idx \<le> 0 then MinSOC p
      else if idx \<ge> socSteps then MaxSOC p
      else
        let f = real_of_int idx / real_of_int socSteps
        in MinSOC p + f * (MaxSOC p - MinSOC p))"

text \<open>
  The loop over the actions from one state \<open>sIdx\<close> (whose value \<open>dp[sIdx]\<close> is \<open>dpS\<close> and
  whose SOC is \<open>soc\<close>), with the loop's variables \<open>next\<close>, \<open>bestNextState\<close>, \<open>bestValue\<close>
  and \<open>bestPower\<close>. The write \<^verbatim>\<open>next[ns]\<close> panics when \<open>ns\<close> is out of range.
\<close>

fun actionLoop ::
  "BatteryParams \<Rightarrow> int \<Rightarrow> real \<Rightarrow> real \<Rightarrow> real \<Rightarrow> real \<Rightarrow> real list
     \<Rightarrow> real list \<times> int \<times> real \<times> real \<Rightarrow> error + (real list \<times> int \<times> real \<times> real)" where
  "actionLoop p socSteps lmp dtH soc dpS [] st = Inr st"
| "actionLoop p socSteps lmp dtH soc dpS (desiredPower # actions)
      (next, bestNextState, bestValue, bestPower) =
     (case simulateInterval soc desiredPower lmp dtH p of
        (nsoc, realizedPower, pnl) \<Rightarrow>
          let ns = socToIdx p socSteps nsoc;
              v = dpS + pnl
          in if ns < 0 \<or> ns \<ge> int (length next) then Inl PanicIndexOutOfRange
             else
               let next = (if v > next ! nat ns then next[nat ns := v] else next)
               in if v > bestValue
                  then actionLoop p socSteps lmp dtH soc dpS actions (next, ns, v, realizedPower)
                  else actionLoop p socSteps lmp dtH soc dpS actions
                         (next, bestNextState, bestValue, bestPower))"

text \<open>
  The loop over the states \<open>sIdx\<close> for one interval, with \<open>next\<close> and the interval's rows
  \<^verbatim>\<open>choice[t]\<close> and \<^verbatim>\<open>powerChosen[t]\<close>.
\<close>

fun stateLoop ::
  "BatteryParams \<Rightarrow> int \<Rightarrow> real \<Rightarrow> real \<Rightarrow> real list \<Rightarrow> real list \<Rightarrow> nat list
     \<Rightarrow> real list \<times> int list \<times> real list \<Rightarrow> error + (real list \<times> int list \<times> real list)" where
  "stateLoop p socSteps lmp dtH actions dp [] st = Inr st"
| "stateLoop p socSteps lmp dtH actions dp (sIdx # states) (next, choiceT, powerT) =
     (if dp ! sIdx \<le> negInf / 2
      then stateLoop p socSteps lmp dtH actions dp states (next, choiceT, powerT)
      else
        let soc = idxToSoc p socSteps (int sIdx) in
        case actionLoop p socSteps lmp dtH soc (dp ! sIdx) actions (next, int sIdx, dp ! sIdx, 0) of
          Inl err \<Rightarrow> Inl err
        | Inr (next, bestNextState, bestValue, bestPower) \<Rightarrow>
            stateLoop p socSteps lmp dtH actions dp states
              (next, choiceT[sIdx := bestNextState], powerT[sIdx := bestPower]))"

text \<open>
  The loop over the intervals, with \<open>t\<close>, \<open>dp\<close> and the rows of \<^verbatim>\<open>choice\<close> and
  \<^verbatim>\<open>powerChosen\<close> filled so far. The source resets \<open>next\<close> at the start of each pass and
  swaps the two arrays at its end.
\<close>

fun intervalLoop ::
  "BatteryParams \<Rightarrow> int \<Rightarrow> real list \<Rightarrow> LMPInterval list \<Rightarrow> nat \<Rightarrow> real list
     \<Rightarrow> (int list \<times> real list) list \<Rightarrow> error + (real list \<times> (int list \<times> real list) list)" where
  "intervalLoop p socSteps actions [] t dp rows = Inr (dp, rows)"
| "intervalLoop p socSteps actions (it # rest) t dp rows =
     (let nStates = nat (socSteps + 1);
          next = replicate nStates negInf;
          dtH = DurationHours it
      in if dtH \<le> 0 then Inl (ErrNonPositiveDt t)
         else
           case stateLoop p socSteps (LMPInterval.LMP it) dtH actions dp [0..<nStates]
                  (next, replicate nStates (- 1), replicate nStates 0) of
             Inl err \<Rightarrow> Inl err
           | Inr (next, choiceT, powerT) \<Rightarrow>
               intervalLoop p socSteps actions rest (t + 1) next (rows @ [(choiceT, powerT)]))"

text \<open>The forward reconstruction: follow the recorded choices from \<open>cur\<close>.\<close>

fun reconstruct :: "(int list \<times> real list) list \<Rightarrow> int \<Rightarrow> error + Dispatch list" where
  "reconstruct [] cur = Inr []"
| "reconstruct ((choiceT, powerT) # rows) cur =
     (if cur < 0 \<or> cur \<ge> int (length choiceT) then Inl PanicIndexOutOfRange
      else
        let ns = choiceT ! nat cur in
        if ns < 0 then
          (case reconstruct rows cur of
             Inl err \<Rightarrow> Inl err
           | Inr plan \<Rightarrow> Inr (\<lparr>Dispatch.PowerMW = Fin 0\<rparr> # plan))
        else if cur \<ge> int (length powerT) then Inl PanicIndexOutOfRange
        else
          (case reconstruct rows ns of
             Inl err \<Rightarrow> Inl err
           | Inr plan \<Rightarrow> Inr (\<lparr>Dispatch.PowerMW = Fin (powerT ! nat cur)\<rparr> # plan)))"

text \<open>
  \<^verbatim>\<open>optimizeDP\<close>. The search for the best final state and the backward loop that
  follows it in the source leave the plan untouched and are not part of the model.
\<close>

definition optimizeDP ::
  "LMPInterval list \<Rightarrow> BatteryParams \<Rightarrow> real \<Rightarrow> int \<Rightarrow> int \<Rightarrow> error + Dispatch list" where
  "optimizeDP intervals p initialSOC socSteps0 powerSteps =
     (let socSteps = (if socSteps0 < 2 then 2 else socSteps0);
          nStates = nat (socSteps + 1);
          dp = replicate nStates negInf;
          initIdx = socToIdx p socSteps initialSOC
      in if initIdx < 0 \<or> initIdx \<ge> int (length dp) then Inl PanicIndexOutOfRange
         else
           let dp = dp[nat initIdx := 0];
               pmax = PowerCapacityMW p;
               step = pmax / real_of_int powerSteps;
               actions = map (\<lambda>k. real_of_int k * step) [- powerSteps..powerSteps]
           in case intervalLoop p socSteps actions intervals 0 dp [] of
                Inl err \<Rightarrow> Inl err
              | Inr (dp, rows) \<Rightarrow> reconstruct rows initIdx)"

text \<open>
  The loop of \<^verbatim>\<open>optimizeDPByDay\<close> over the intervals, with \<open>i\<close>, \<open>dayIntervals\<close>,
  \<open>fullPlan\<close> and \<open>currentDay\<close>.
\<close>

fun dayLoop ::
  "BatteryParams \<Rightarrow> real \<Rightarrow> int \<Rightarrow> int \<Rightarrow> LMPInterval list \<Rightarrow> nat \<Rightarrow> LMPInterval list
     \<Rightarrow> Dispatch list \<Rightarrow> Time \<Rightarrow> error + (LMPInterval list \<times> Dispatch list \<times> Time)" where
  "dayLoop p initialSOC socSteps powerSteps [] i dayIntervals fullPlan currentDay =
     Inr (dayIntervals, fullPlan, currentDay)"
| "dayLoop p initialSOC socSteps powerSteps (interval # rest) i dayIntervals fullPlan currentDay =
     (let intervalDay = startOfDay (LMPInterval.IntervalStartLocal interval) in
      case (if i > 0 \<and> \<not> Equal intervalDay currentDay
            then (case optimizeDP dayIntervals p initialSOC socSteps powerSteps of
                    Inl err \<Rightarrow> Inl (ErrOptimizingDay (nsec currentDay) err)
                  | Inr dayPlan \<Rightarrow> Inr ([], fullPlan @ dayPlan))
            else Inr (dayIntervals, fullPlan)) of
        Inl err \<Rightarrow> Inl err
      | Inr (dayIntervals, fullPlan) \<Rightarrow>
          let currentDay = (if length dayIntervals = 0 then intervalDay else currentDay);
              dayIntervals = dayIntervals @ [interval]
          in dayLoop p initialSOC socSteps powerSteps rest (i + 1) dayIntervals fullPlan currentDay)"

definition optimizeDPByDay ::
  "LMPInterval list \<Rightarrow> BatteryParams \<Rightarrow> real \<Rightarrow> int \<Rightarrow> int \<Rightarrow> error + Dispatch list" where
  "optimizeDPByDay intervals p initialSOC socSteps powerSteps =
     (if length intervals = 0 then Inl ErrNoIntervals
      else
        case dayLoop p initialSOC socSteps powerSteps intervals 0 [] []
               \<lparr>nsec = 0, zoneOffset = 0\<rparr> of
          Inl err \<Rightarrow> Inl err
        | Inr (dayIntervals, fullPlan, currentDay) \<Rightarrow>
            (case (if length dayIntervals > 0
                   then (case optimizeDP dayIntervals p initialSOC socSteps powerSteps of
                           Inl err \<Rightarrow> Inl (ErrOptimizingDay (nsec currentDay) err)
                         | Inr dayPlan \<Rightarrow> Inr (fullPlan @ dayPlan))
                   else Inr fullPlan) of
               Inl err \<Rightarrow> Inl err
             | Inr fullPlan \<Rightarrow>
                 if length fullPlan \<noteq> length intervals
                 then Inl (ErrPlanLength (length fullPlan) (length intervals))
                 else Inr fullPlan))"

text \<open>\<^verbatim>\<open>NewOracleStrategy\<close>: the strategy is its plan.\<close>

definition NewOracleStrategy ::
  "LMPInterval list \<Rightarrow> BatteryParams \<Rightarrow> real \<Rightarrow> OracleParams \<Rightarrow> error + Dispatch list" where
  "NewOracleStrategy intervals params initialSOC cfg0 =
     (if length intervals = 0 then Inl ErrNoIntervals
      else
        let cfg = (if SocSteps cfg0 \<le> 0 then cfg0\<lparr>SocSteps := 200\<rparr> else cfg0);
            cfg = (if PowerSteps cfg \<le> 0 then cfg\<lparr>PowerSteps := 10\<rparr> else cfg)
        in optimizeDPByDay intervals params initialSOC (SocSteps cfg) (PowerSteps cfg))"

subsection \<open>The plan has one dispatch per interval\<close>

text \<open>A 1 MWh, 1 MW battery without losses, for the closed instances.\<close>

definition unitParams :: BatteryParams where
  "unitParams = \<lparr>EnergyCapacityMWh = 1, PowerCapacityMW = 1, ChargeEfficiency = 1,
     DischargeEfficiency = 1, MinSOC = 0, MaxSOC = 1, DegradationCostPerMWh = 0\<rparr>"










text \<open>The plan \<^verbatim>\<open>optimizeDP\<close> returns for one day's intervals (empty when it fails).\<close>

definition dayPlan :: "BatteryParams \<Rightarrow> real \<Rightarrow> int \<Rightarrow> int \<Rightarrow> LMPInterval list \<Rightarrow> Dispatch list" where
  "dayPlan p initialSOC socSteps powerSteps g =
     (case optimizeDP g p initialSOC socSteps powerSteps of Inr plan \<Rightarrow> plan | Inl err \<Rightarrow> [])"








subsection \<open>The plan against a schedule\<close>

text \<open>
  What \<^verbatim>\<open>fmt.Sscanf(part, "%d", &n)\<close> reads from a string of decimal digits; on any other
  string this scanner reports an error.
\<close>

definition isDigit :: "char \<Rightarrow> bool" where
  "isDigit c = (48 \<le> (of_char c :: nat) \<and> (of_char c :: nat) \<le> 57)"

definition scanDigits :: "string \<Rightarrow> int option" where
  "scanDigits s =
     (if s \<noteq> [] \<and> list_all isDigit s
      then Some (foldl (\<lambda>n c. 10 * n + (int (of_char c) - 48)) 0 s)
      else None)"

text \<open>The schedule: charge from 00:00 to 01:00, discharge from 01:00 to 02:00, at 1 MW.\<close>

definition chargeThenDischarge :: ScheduleStrategy where
  "chargeThenDischarge =
     \<lparr>ScheduleStrategy.Params =
        \<lparr>ChargeStart = ''00:00'', ChargeEnd = ''01:00'', DischargeStart = ''01:00'',
         DischargeEnd = ''02:00'', ChargePowerMW = 1, DischargePowerMW = 1\<rparr>,
      initialized = False, csMins = 0, ceMins = 0, dsMins = 0, deMins = 0\<rparr>"

text \<open>The total PnL of a run, or its error.\<close>

definition totalPNL :: "(error + Result) \<times> Battery option \<Rightarrow> error + real" where
  "totalPNL r = (case fst r of Inl err \<Rightarrow> Inl err | Inr res \<Rightarrow> Inr (TotalPNL res))"

text \<open>
  Claim C6 says that within one day the Oracle's total PnL is at least that of any
  schedule. On two one-hour intervals of one day at prices 10 and 100, with the lossless
  1 MWh / 1 MW battery starting empty and the grid \<open>SocSteps = 2\<close>, \<open>PowerSteps = 1\<close>,
  the plan of \<open>NewOracleStrategy\<close> is idle twice and earns 0, while the schedule that
  charges from 00:00 to 01:00 and discharges from 01:00 to 02:00 at 1 MW earns 90. Both
  of the schedule's actions are on the planner's action grid and its SOC path 0, 1, 0 is on
  the SOC grid. The forward pass records in \<^verbatim>\<open>choice[t][s]\<close> the action with the best
  immediate value from \<open>s\<close>, and the reconstruction follows these records, so the plan
  never takes an action whose own interval PnL is negative.
\<close>

theorem oracle_loses_to_schedule:
  "Validate \<lparr>Battery.Params = unitParams, State = \<lparr>SOC = 0\<rparr>\<rparr> = None
   \<and> NewOracleStrategy [hourInterval 0 10, hourInterval 1 100] unitParams 0
        \<lparr>SocSteps = 2, PowerSteps = 1\<rparr>
      = Inr [\<lparr>Dispatch.PowerMW = Fin 0\<rparr>, \<lparr>Dispatch.PowerMW = Fin 0\<rparr>]
   \<and> totalPNL (Run [hourInterval 0 10, hourInterval 1 100]
                  (Some \<lparr>Battery.Params = unitParams, State = \<lparr>SOC = 0\<rparr>\<rparr>)
                  (Some (OracleDecide, [\<lparr>Dispatch.PowerMW = Fin 0\<rparr>, \<lparr>Dispatch.PowerMW = Fin 0\<rparr>])))
      = Inr 0
   \<and> totalPNL (Run [hourInterval 0 10, hourInterval 1 100]
                  (Some \<lparr>Battery.Params = unitParams, State = \<lparr>SOC = 0\<rparr>\<rparr>)
                  (Some (ScheduleDecide scanDigits, chargeThenDischarge)))
      = Inr 90"
  by code_simp

end
